theory Spec2Isabelle
  imports Main "HOL-Library.Multiset"
begin

section \<open>Food donation backend: data model\<close>

text \<open>
  The backend is one file, \<^verbatim>\<open>src/backend/server.js\<close>: Express handlers over two
  Mongoose collections. The embedding follows it handler by handler.

  An ObjectId is a natural number. A string coming from the URL that Mongoose has to
  cast to an ObjectId is an \<open>idArg\<close>: \<open>HexString i\<close> is a string that Mongoose casts
  to the ObjectId \<open>i\<close>, as the 24 hexadecimal digits of \<open>i\<close> are; \<open>OtherString\<close> is
  a string for which the cast throws a CastError.
\<close>

type_synonym objectId = nat

datatype idArg = HexString objectId | OtherString string

text \<open>\<^verbatim>\<open>userSchema\<close> (lines 32-40) and \<^verbatim>\<open>donationSchema\<close> (lines 43-58).\<close>

record user =
  user_id :: objectId
  name :: string
  email :: string
  password :: string
  phone :: string
  userType :: string
  address :: string
  user_createdAt :: nat

record donation =
  donation_id :: objectId
  donorId :: objectId
  donorName :: string
  donorPhone :: string
  foodName :: string
  quantity :: string
  category :: string
  description :: "string option"
  pickupAddress :: string
  expiryTime :: string
  status :: string
  receiverId :: "objectId option"
  receiverName :: "string option"
  receiverPhone :: "string option"
  createdAt :: nat

text \<open>
  The two collections, in insertion order, and the source of fresh ObjectIds.
\<close>

record store =
  users :: "user list"
  donations :: "donation list"
  nextId :: objectId

definition emptyStore :: store where
  "emptyStore = \<lparr>users = [], donations = [], nextId = 0\<rparr>"

text \<open>
  What a handler throws into its \<^verbatim>\<open>catch\<close> block: a schema validation failure at
  \<^verbatim>\<open>save()\<close>, a failed ObjectId cast, a violation of the unique index on
  \<^verbatim>\<open>email\<close>, or the \<^verbatim>\<open>Illegal arguments\<close> error of bcryptjs.
\<close>

datatype thrown = ValidationError | CastError | DuplicateKey | IllegalArguments

text \<open>
  JSON response bodies. \<open>JDonation\<close> is a donation document as Mongoose serialises
  it, \<open>JErrorMessage\<close> the \<^verbatim>\<open>error.message\<close> text of a caught exception.
\<close>

datatype json =
    JString string
  | JNumber nat
  | JObjectId objectId
  | JDate nat
  | JDonation donation
  | JErrorMessage thrown
  | JObject "(string \<times> json) list"
  | JArray "json list"

record response =
  statusCode :: nat
  body :: json

definition respond :: "nat \<Rightarrow> json \<Rightarrow> response" where
  "respond c j = \<lparr>statusCode = c, body = j\<rparr>"

definition message :: "string \<Rightarrow> json" where
  "message m = JObject [(''message'', JString m)]"

definition serverError :: "string \<Rightarrow> thrown \<Rightarrow> response" where
  "serverError m e = respond 500 (JObject [(''message'', JString m), (''error'', JErrorMessage e)])"

text \<open>Reading a JSON object: its keys, and the value under a key.\<close>

fun objectKeys :: "json \<Rightarrow> string list" where
  "objectKeys (JObject kvs) = map fst kvs"
| "objectKeys j = []"

fun getField :: "json \<Rightarrow> string \<Rightarrow> json option" where
  "getField (JObject kvs) k = map_of kvs k"
| "getField j k = None"

text \<open>
  A request body is a JSON object, read as a dictionary from field names to the scalar
  values of JSON: a string, a number, a boolean or null. A number is given by the
  string that JavaScript's \<^verbatim>\<open>String\<close> makes of it, \<open>0\<close> for zero.
\<close>

datatype jsValue = StringValue string | NumberValue string | BoolValue bool | NullValue

type_synonym reqBody = "string \<rightharpoonup> jsValue"

text \<open>
  JavaScript's \<^verbatim>\<open>!x\<close>. On a string that may be \<^verbatim>\<open>undefined\<close> it holds when the
  string is missing or empty; on a field of a body, when the field is missing, null,
  false, zero or the empty string.
\<close>

definition falsy :: "string option \<Rightarrow> bool" where
  "falsy x = (case x of None \<Rightarrow> True | Some v \<Rightarrow> v = [])"

fun falsyValue :: "jsValue \<Rightarrow> bool" where
  "falsyValue (StringValue v) = (v = [])"
| "falsyValue (NumberValue n) = (n = ''0'')"
| "falsyValue (BoolValue t) = (\<not> t)"
| "falsyValue NullValue = True"

definition falsyField :: "jsValue option \<Rightarrow> bool" where
  "falsyField x = (case x of None \<Rightarrow> True | Some v \<Rightarrow> falsyValue v)"

text \<open>
  Mongoose's cast of a value to the schema type String, in a document and in a query:
  a string is itself, a number or a boolean is its \<^verbatim>\<open>toString()\<close>, null stays null.
  \<open>fieldString b k\<close> is the field \<open>k\<close> of the body \<open>b\<close> after this cast.
\<close>

fun castString :: "jsValue \<Rightarrow> string option" where
  "castString (StringValue v) = Some v"
| "castString (NumberValue n) = Some n"
| "castString (BoolValue t) = Some (if t then ''true'' else ''false'')"
| "castString NullValue = None"

definition fieldString :: "reqBody \<Rightarrow> string \<Rightarrow> string option" where
  "fieldString b k = (case b k of None \<Rightarrow> None | Some v \<Rightarrow> castString v)"

section \<open>Libraries\<close>

text \<open>
  \<^verbatim>\<open>jsonwebtoken\<close> and \<^verbatim>\<open>bcryptjs\<close> are not part of the repository; the handlers
  take them as a parameter. \<open>jwt_sign uid secret now\<close> is
  \<^verbatim>\<open>jwt.sign({ userId: uid }, secret, { expiresIn: '24h' })\<close> at time \<open>now\<close>;
  \<open>jwt_verify token secret now\<close> is the \<^verbatim>\<open>userId\<close> of the decoded payload, or
  \<open>None\<close> when \<^verbatim>\<open>jwt.verify\<close> throws; \<open>bcrypt_hash pw salt\<close> is
  \<^verbatim>\<open>bcrypt.hash(pw, 10)\<close> with the salt it drew; \<open>bcrypt_compare pw digest\<close> is
  \<^verbatim>\<open>bcrypt.compare\<close>, both on strings. The embedding covers the tokens whose payload
  carries an ObjectId as its \<^verbatim>\<open>userId\<close>, as the tokens signed by the login handler
  do.
\<close>

record lib =
  jwt_sign :: "objectId \<Rightarrow> string \<Rightarrow> nat \<Rightarrow> string"
  jwt_verify :: "string \<Rightarrow> string \<Rightarrow> nat \<Rightarrow> objectId option"
  bcrypt_hash :: "string \<Rightarrow> nat \<Rightarrow> string"
  bcrypt_compare :: "string \<Rightarrow> string \<Rightarrow> bool"

text \<open>
  bcryptjs hashes and compares strings only: for an argument that is not a string,
  \<^verbatim>\<open>bcrypt.hash\<close> and \<^verbatim>\<open>bcrypt.compare\<close> reject with \<^verbatim>\<open>Illegal arguments\<close>.
\<close>

definition bcryptHash :: "lib \<Rightarrow> jsValue \<Rightarrow> nat \<Rightarrow> thrown + string" where
  "bcryptHash L v salt =
     (case v of StringValue pw \<Rightarrow> Inr (bcrypt_hash L pw salt)
      | NumberValue n \<Rightarrow> Inl IllegalArguments
      | BoolValue t \<Rightarrow> Inl IllegalArguments
      | NullValue \<Rightarrow> Inl IllegalArguments)"

definition bcryptCompare :: "lib \<Rightarrow> jsValue \<Rightarrow> string \<Rightarrow> thrown + bool" where
  "bcryptCompare L v digest =
     (case v of StringValue pw \<Rightarrow> Inr (bcrypt_compare L pw digest)
      | NumberValue n \<Rightarrow> Inl IllegalArguments
      | BoolValue t \<Rightarrow> Inl IllegalArguments
      | NullValue \<Rightarrow> Inl IllegalArguments)"

definition JWT_SECRET :: string where
  "JWT_SECRET = ''your_jwt_secret_key_here_change_in_production''"

section \<open>The token middleware\<close>

text \<open>
  \<^verbatim>\<open>String.prototype.split\<close> with a one-character separator: the pieces between the
  separators, the empty string giving one empty piece.
\<close>

fun split :: "char \<Rightarrow> string \<Rightarrow> string list" where
  "split sep [] = [[]]"
| "split sep (c # cs) =
     (if c = sep then [] # split sep cs
      else (case split sep cs of [] \<Rightarrow> [[c]] | p # ps \<Rightarrow> (c # p) # ps))"

text \<open>Reading an array at a position: \<^verbatim>\<open>undefined\<close> out of range.\<close>

definition arrayAt :: "'a list \<Rightarrow> nat \<Rightarrow> 'a option" where
  "arrayAt xs n = (if n < length xs then Some (xs ! n) else None)"

text \<open>
  \<^verbatim>\<open>verifyToken\<close> (lines 67-79). The argument is the Authorization header, absent
  or a string; the result is the response the middleware sends, or the
  \<^verbatim>\<open>req.userId\<close> it passes on to the handler.
\<close>

definition verifyToken :: "lib \<Rightarrow> nat \<Rightarrow> string option \<Rightarrow> response + objectId" where
  "verifyToken L now authorization =
     (let token = (case authorization of None \<Rightarrow> None
                   | Some h \<Rightarrow> arrayAt (split CHR '' '' h) 1)
      in if falsy token then Inl (respond 401 (message ''No token provided''))
         else (case jwt_verify L (the token) JWT_SECRET now of
                 Some uid \<Rightarrow> Inr uid
               | None \<Rightarrow> Inl (respond 401 (message ''Invalid token''))))"

section \<open>The collections\<close>

text \<open>\<^verbatim>\<open>findOne({ email })\<close> and \<^verbatim>\<open>findById\<close>: the first matching document, or null.\<close>

definition findUserByEmail :: "store \<Rightarrow> string \<Rightarrow> user option" where
  "findUserByEmail s e = find (\<lambda>u. email u = e) (users s)"

definition findUserById :: "store \<Rightarrow> objectId \<Rightarrow> user option" where
  "findUserById s i = find (\<lambda>u. user_id u = i) (users s)"

definition findDonationById :: "store \<Rightarrow> idArg \<Rightarrow> thrown + donation option" where
  "findDonationById s a =
     (case a of OtherString _ \<Rightarrow> Inl CastError
      | HexString i \<Rightarrow> Inr (find (\<lambda>d. donation_id d = i) (donations s)))"

text \<open>
  Schema validation, run by every \<^verbatim>\<open>save()\<close>: a required string must not be empty,
  an enumerated string must be one of its values.
\<close>

definition validateUser :: "user \<Rightarrow> bool" where
  "validateUser u \<longleftrightarrow>
     name u \<noteq> [] \<and> email u \<noteq> [] \<and> password u \<noteq> [] \<and> phone u \<noteq> [] \<and>
     userType u \<in> set [''donor'', ''receiver''] \<and> address u \<noteq> []"

definition validateDonation :: "donation \<Rightarrow> bool" where
  "validateDonation d \<longleftrightarrow>
     donorName d \<noteq> [] \<and> donorPhone d \<noteq> [] \<and> foodName d \<noteq> [] \<and> quantity d \<noteq> [] \<and>
     category d \<noteq> [] \<and> pickupAddress d \<noteq> [] \<and> expiryTime d \<noteq> [] \<and>
     status d \<in> set [''available'', ''claimed'', ''completed'']"

text \<open>
  \<^verbatim>\<open>save()\<close> of a new user: validation, then the insert, which the unique index on
  \<^verbatim>\<open>email\<close> rejects for a duplicate.
\<close>

definition saveUser :: "store \<Rightarrow> user \<Rightarrow> thrown + store" where
  "saveUser s u =
     (if \<not> validateUser u then Inl ValidationError
      else if findUserByEmail s (email u) \<noteq> None then Inl DuplicateKey
      else Inr (s\<lparr>users := users s @ [u]\<rparr>))"

text \<open>\<^verbatim>\<open>save()\<close> of a new donation: validation, then the insert.\<close>

definition insertDonation :: "store \<Rightarrow> donation \<Rightarrow> thrown + store" where
  "insertDonation s d =
     (if \<not> validateDonation d then Inl ValidationError
      else Inr (s\<lparr>donations := donations s @ [d]\<rparr>))"

text \<open>
  \<^verbatim>\<open>save()\<close> of a donation loaded from the collection and modified by the claim
  handler: validation of the document in hand, then an update, by \<^verbatim>\<open>_id\<close>, that sets
  the four modified paths on the stored document.
\<close>

definition setClaim :: "donation \<Rightarrow> donation \<Rightarrow> donation" where
  "setClaim d' d =
     d\<lparr>status := status d', receiverId := receiverId d',
       receiverName := receiverName d', receiverPhone := receiverPhone d'\<rparr>"

definition updateDonation :: "store \<Rightarrow> donation \<Rightarrow> thrown + store" where
  "updateDonation s d' =
     (if \<not> validateDonation d' then Inl ValidationError
      else Inr (s\<lparr>donations :=
             map (\<lambda>d. if donation_id d = donation_id d' then setClaim d' d else d)
               (donations s)\<rparr>))"

text \<open>\<^verbatim>\<open>.sort({ createdAt: -1 })\<close>: newest first.\<close>

definition sortByCreatedAtDesc :: "donation list \<Rightarrow> donation list" where
  "sortByCreatedAtDesc ds = rev (sort_key createdAt ds)"

text \<open>\<^verbatim>\<open>new User(...)\<close> and \<^verbatim>\<open>new Donation(...)\<close> draw a fresh ObjectId.\<close>

definition drawId :: "store \<Rightarrow> store" where
  "drawId s = s\<lparr>nextId := Suc (nextId s)\<rparr>"

section \<open>The handlers\<close>

text \<open>
  Each handler takes the clock reading \<open>now\<close> where it uses one, the store, and the
  request's data; a handler that writes returns the response and the new store, a
  handler that only reads returns the response. Handlers behind \<^verbatim>\<open>verifyToken\<close>
  take the \<^verbatim>\<open>req.userId\<close> the middleware set.
\<close>

text \<open>\<^verbatim>\<open>GET /api/health\<close> (lines 86-107); \<open>dbState\<close> is the connection's \<^verbatim>\<open>readyState\<close>.\<close>

definition health :: "nat \<Rightarrow> nat \<Rightarrow> response" where
  "health now dbState =
     (if dbState = 1
      then respond 200 (JObject [(''status'', JString ''healthy''),
             (''database'', JString ''connected''), (''timestamp'', JDate now)])
      else respond 503 (JObject [(''status'', JString ''unhealthy''),
             (''database'', JString ''disconnected'')]))"

text \<open>\<^verbatim>\<open>GET /api/stats\<close> (lines 110-141).\<close>

definition recentActivity :: "donation \<Rightarrow> json" where
  "recentActivity d =
     JObject [(''action'', JString (donorName d @ '' donated '' @ foodName d @
                 '' - Status: '' @ status d)),
              (''timestamp'', JDate (createdAt d))]"

definition stats :: "store \<Rightarrow> response" where
  "stats s =
     (let totalDonations = length (donations s);
          activeDonations = length (filter (\<lambda>d. status d = ''available'') (donations s));
          claimedDonations = length (filter (\<lambda>d. status d = ''claimed'') (donations s));
          totalUsers = length (users s);
          donors = length (filter (\<lambda>u. userType u = ''donor'') (users s));
          receivers = length (filter (\<lambda>u. userType u = ''receiver'') (users s));
          recentDonations = take 5 (sortByCreatedAtDesc (donations s))
      in respond 200 (JObject [
           (''totalDonations'', JNumber totalDonations),
           (''activeDonations'', JNumber activeDonations),
           (''claimedDonations'', JNumber claimedDonations),
           (''totalUsers'', JNumber totalUsers),
           (''donors'', JNumber donors),
           (''receivers'', JNumber receivers),
           (''recentActivity'', JArray (map recentActivity recentDonations))]))"

text \<open>
  \<^verbatim>\<open>POST /api/register\<close> (lines 144-183); \<open>salt\<close> is the salt bcrypt draws. What
  \<^verbatim>\<open>bcrypt.hash\<close> or \<^verbatim>\<open>save()\<close> throws goes to the \<^verbatim>\<open>catch\<close> of lines 179-182.
\<close>

definition register :: "lib \<Rightarrow> nat \<Rightarrow> nat \<Rightarrow> store \<Rightarrow> reqBody \<Rightarrow> response \<times> store" where
  "register L now salt s b =
     (if falsyField (b ''name'') \<or> falsyField (b ''email'') \<or> falsyField (b ''password'') \<or>
         falsyField (b ''phone'') \<or> falsyField (b ''userType'') \<or> falsyField (b ''address'')
      then (respond 400 (message ''All fields are required''), s)
      else (case findUserByEmail s (the (fieldString b ''email'')) of
              Some existingUser \<Rightarrow>
                (respond 400 (message ''User already exists with this email''), s)
            | None \<Rightarrow>
                (case bcryptHash L (the (b ''password'')) salt of
                   Inl e \<Rightarrow> (serverError ''Server error during registration'' e, s)
                 | Inr hashedPassword \<Rightarrow>
                     (let u = \<lparr>user_id = nextId s, name = the (fieldString b ''name''),
                               email = the (fieldString b ''email''),
                               password = hashedPassword,
                               phone = the (fieldString b ''phone''),
                               userType = the (fieldString b ''userType''),
                               address = the (fieldString b ''address''),
                               user_createdAt = now\<rparr>;
                          s1 = drawId s
                      in (case saveUser s1 u of
                            Inl e \<Rightarrow> (serverError ''Server error during registration'' e, s1)
                          | Inr s2 \<Rightarrow>
                              (respond 201 (JObject [
                                 (''message'', JString ''User registered successfully''),
                                 (''user'', JObject [(''id'', JObjectId (user_id u)),
                                    (''name'', JString (name u)),
                                    (''email'', JString (email u)),
                                    (''userType'', JString (userType u))])]), s2))))))"

text \<open>
  \<^verbatim>\<open>POST /api/login\<close> (lines 186-221). What \<^verbatim>\<open>bcrypt.compare\<close> throws goes to the
  \<^verbatim>\<open>catch\<close> of lines 217-220.
\<close>

definition login :: "lib \<Rightarrow> nat \<Rightarrow> store \<Rightarrow> reqBody \<Rightarrow> response" where
  "login L now s b =
     (if falsyField (b ''email'') \<or> falsyField (b ''password'')
      then respond 400 (message ''Email and password are required'')
      else (case findUserByEmail s (the (fieldString b ''email'')) of
              None \<Rightarrow> respond 400 (message ''Invalid email or password'')
            | Some u \<Rightarrow>
                (case bcryptCompare L (the (b ''password'')) (password u) of
                   Inl e \<Rightarrow> serverError ''Server error during login'' e
                 | Inr isMatch \<Rightarrow>
                     if \<not> isMatch
                     then respond 400 (message ''Invalid email or password'')
                     else respond 200 (JObject [
                            (''token'', JString (jwt_sign L (user_id u) JWT_SECRET now)),
                            (''user'', JObject [(''id'', JObjectId (user_id u)),
                               (''name'', JString (name u)),
                               (''email'', JString (email u)),
                               (''userType'', JString (userType u)),
                               (''phone'', JString (phone u)),
                               (''address'', JString (address u))])]))))"

text \<open>
  \<^verbatim>\<open>POST /api/donations\<close> (lines 224-264); \<open>missingDonationField\<close> is the condition
  of line 228.
\<close>

definition missingDonationField :: "reqBody \<Rightarrow> bool" where
  "missingDonationField b \<longleftrightarrow>
     falsyField (b ''foodName'') \<or> falsyField (b ''quantity'') \<or>
     falsyField (b ''category'') \<or> falsyField (b ''pickupAddress'') \<or>
     falsyField (b ''expiryTime'')"

definition createDonation :: "nat \<Rightarrow> store \<Rightarrow> objectId \<Rightarrow> reqBody \<Rightarrow> response \<times> store" where
  "createDonation now s userId b =
     (if missingDonationField b
      then (respond 400 (message ''All required fields must be filled''), s)
      else (case findUserById s userId of
              None \<Rightarrow> (respond 404 (message ''User not found''), s)
            | Some u \<Rightarrow>
                if userType u \<noteq> ''donor''
                then (respond 403 (message ''Only donors can create donations''), s)
                else
                  (let d = \<lparr>donation_id = nextId s, donorId = userId,
                            donorName = name u, donorPhone = phone u,
                            foodName = the (fieldString b ''foodName''),
                            quantity = the (fieldString b ''quantity''),
                            category = the (fieldString b ''category''),
                            description = fieldString b ''description'',
                            pickupAddress = the (fieldString b ''pickupAddress''),
                            expiryTime = the (fieldString b ''expiryTime''),
                            status = ''available'',
                            receiverId = None, receiverName = None, receiverPhone = None,
                            createdAt = now\<rparr>;
                       s1 = drawId s
                   in (case insertDonation s1 d of
                         Inl e \<Rightarrow> (serverError ''Server error creating donation'' e, s1)
                       | Inr s2 \<Rightarrow>
                           (respond 201 (JObject [
                              (''message'', JString ''Donation created successfully''),
                              (''donation'', JDonation d)]), s2)))))"

text \<open>\<^verbatim>\<open>GET /api/donations\<close> (lines 267-276).\<close>

definition getDonations :: "store \<Rightarrow> donation list" where
  "getDonations s =
     sortByCreatedAtDesc (filter (\<lambda>d. status d = ''available'') (donations s))"

definition listAvailable :: "store \<Rightarrow> response" where
  "listAvailable s = respond 200 (JArray (map JDonation (getDonations s)))"

text \<open>\<^verbatim>\<open>GET /api/donations/my-donations\<close> (lines 279-297).\<close>

definition myDonations :: "store \<Rightarrow> objectId \<Rightarrow> response" where
  "myDonations s userId =
     (case findUserById s userId of
        None \<Rightarrow> respond 404 (message ''User not found'')
      | Some u \<Rightarrow>
          if userType u \<noteq> ''donor''
          then respond 403 (message ''Only donors can view their donations'')
          else respond 200 (JArray (map JDonation
                 (sortByCreatedAtDesc (filter (\<lambda>d. donorId d = userId) (donations s))))))"

text \<open>
  \<^verbatim>\<open>PUT /api/donations/:id/claim\<close> (lines 300-335). The handler awaits three
  times, and between two awaits other requests may run. Its three stretches are
  \<open>claimUser\<close> (lines 302-309), \<open>claimLoad\<close> (lines 311-318) and \<open>claimSave\<close>
  (lines 320-330, with the assignments of lines 320-323 in \<open>stampReceiver\<close>);
  \<open>claimDonation\<close> is the handler run without interruption.
\<close>

definition claimUser :: "store \<Rightarrow> objectId \<Rightarrow> response + user" where
  "claimUser s userId =
     (case findUserById s userId of
        None \<Rightarrow> Inl (respond 404 (message ''User not found''))
      | Some u \<Rightarrow>
          if userType u \<noteq> ''receiver''
          then Inl (respond 403 (message ''Only receivers can claim donations''))
          else Inr u)"

definition claimLoad :: "store \<Rightarrow> idArg \<Rightarrow> response + donation" where
  "claimLoad s a =
     (case findDonationById s a of
        Inl e \<Rightarrow> Inl (serverError ''Server error claiming donation'' e)
      | Inr None \<Rightarrow> Inl (respond 404 (message ''Donation not found''))
      | Inr (Some d) \<Rightarrow>
          if status d \<noteq> ''available''
          then Inl (respond 400 (message ''This donation is no longer available''))
          else Inr d)"

definition stampReceiver :: "objectId \<Rightarrow> user \<Rightarrow> donation \<Rightarrow> donation" where
  "stampReceiver userId u d =
     d\<lparr>status := ''claimed'', receiverId := Some userId,
       receiverName := Some (name u), receiverPhone := Some (phone u)\<rparr>"

definition claimSave :: "store \<Rightarrow> objectId \<Rightarrow> user \<Rightarrow> donation \<Rightarrow> response \<times> store" where
  "claimSave s userId u d =
     (let d' = stampReceiver userId u d
      in (case updateDonation s d' of
            Inl e \<Rightarrow> (serverError ''Server error claiming donation'' e, s)
          | Inr s' \<Rightarrow>
              (respond 200 (JObject [
                 (''message'', JString ''Donation claimed successfully''),
                 (''donation'', JDonation d')]), s')))"

definition claimDonation :: "store \<Rightarrow> objectId \<Rightarrow> idArg \<Rightarrow> response \<times> store" where
  "claimDonation s userId a =
     (case claimUser s userId of
        Inl r \<Rightarrow> (r, s)
      | Inr u \<Rightarrow>
          (case claimLoad s a of
             Inl r \<Rightarrow> (r, s)
           | Inr d \<Rightarrow> claimSave s userId u d))"

text \<open>
  The same handler, one stretch at a time. A claim request in progress is at its
  start, or holds the user it loaded, or holds the user and the donation it loaded, or
  has sent its response. \<open>claimStep\<close> runs the request up to its next await.
\<close>

datatype claimTask =
    AtStart objectId idArg
  | HasUser objectId idArg user
  | HasDonation objectId user donation
  | Sent response

fun claimStep :: "store \<Rightarrow> claimTask \<Rightarrow> claimTask \<times> store" where
  "claimStep s (AtStart userId a) =
     (case claimUser s userId of
        Inl r \<Rightarrow> (Sent r, s)
      | Inr u \<Rightarrow> (HasUser userId a u, s))"
| "claimStep s (HasUser userId a u) =
     (case claimLoad s a of
        Inl r \<Rightarrow> (Sent r, s)
      | Inr d \<Rightarrow> (HasDonation userId u d, s))"
| "claimStep s (HasDonation userId u d) =
     (case claimSave s userId u d of (r, s') \<Rightarrow> (Sent r, s'))"
| "claimStep s (Sent r) = (Sent r, s)"

text \<open>
  Several claim requests in progress, and a schedule: the list of the requests that
  the event loop resumes, in order.
\<close>

fun interleave :: "store \<Rightarrow> claimTask list \<Rightarrow> nat list \<Rightarrow> claimTask list \<times> store" where
  "interleave s ts [] = (ts, s)"
| "interleave s ts (k # ks) =
     (if k < length ts
      then (case claimStep s (ts ! k) of (t', s') \<Rightarrow> interleave s' (ts[k := t']) ks)
      else interleave s ts ks)"

text \<open>\<^verbatim>\<open>GET /api/donations/claimed\<close> (lines 338-356).\<close>

definition claimedDonations :: "store \<Rightarrow> objectId \<Rightarrow> response" where
  "claimedDonations s userId =
     (case findUserById s userId of
        None \<Rightarrow> respond 404 (message ''User not found'')
      | Some u \<Rightarrow>
          if userType u \<noteq> ''receiver''
          then respond 403 (message ''Only receivers can view claimed items'')
          else respond 200 (JArray (map JDonation
                 (sortByCreatedAtDesc
                    (filter (\<lambda>d. receiverId d = Some userId) (donations s))))))"

section \<open>The application\<close>

text \<open>
  The routes of the application, each with the data the handler reads from the
  request: the \<^verbatim>\<open>readyState\<close> of the connection, bcrypt's salt, the body, the
  Authorization header, the \<^verbatim>\<open>:id\<close> of the path.
\<close>

datatype request =
    GetHealth nat
  | GetStats
  | PostRegister nat reqBody
  | PostLogin reqBody
  | PostDonations "string option" reqBody
  | GetDonations
  | GetMyDonations "string option"
  | PutClaim "string option" idArg
  | GetClaimed "string option"
  | OtherRoute

text \<open>
  One request served at clock reading \<open>now\<close>, without interleaving: the middleware,
  then the handler. The last case is the 404 handler of lines 359-361.
\<close>

fun handle :: "lib \<Rightarrow> nat \<Rightarrow> store \<Rightarrow> request \<Rightarrow> response \<times> store" where
  "handle L now s (GetHealth dbState) = (health now dbState, s)"
| "handle L now s GetStats = (stats s, s)"
| "handle L now s (PostRegister salt b) = register L now salt s b"
| "handle L now s (PostLogin b) = (login L now s b, s)"
| "handle L now s (PostDonations h b) =
     (case verifyToken L now h of Inl r \<Rightarrow> (r, s)
      | Inr userId \<Rightarrow> createDonation now s userId b)"
| "handle L now s GetDonations = (listAvailable s, s)"
| "handle L now s (GetMyDonations h) =
     (case verifyToken L now h of Inl r \<Rightarrow> (r, s)
      | Inr userId \<Rightarrow> (myDonations s userId, s))"
| "handle L now s (PutClaim h a) =
     (case verifyToken L now h of Inl r \<Rightarrow> (r, s)
      | Inr userId \<Rightarrow> claimDonation s userId a)"
| "handle L now s (GetClaimed h) =
     (case verifyToken L now h of Inl r \<Rightarrow> (r, s)
      | Inr userId \<Rightarrow> (claimedDonations s userId, s))"
| "handle L now s OtherRoute = (respond 404 (message ''Route not found''), s)"

text \<open>
  The stores the application can be in: the empty one, and every store a request
  leaves behind.
\<close>

inductive reachable :: "lib \<Rightarrow> store \<Rightarrow> bool" for L :: lib where
  reachable_empty: "reachable L emptyStore"
| reachable_handle: "reachable L s \<Longrightarrow> reachable L (snd (handle L now s req))"

text \<open>A sequence of requests, each with its clock reading, served one after the other.\<close>

fun serve :: "lib \<Rightarrow> store \<Rightarrow> (nat \<times> request) list \<Rightarrow> store" where
  "serve L s [] = s"
| "serve L s ((now, req) # rs) = serve L (snd (handle L now s req)) rs"

text \<open>
  The donations collection after the update of a successful claim of the donation
  \<open>i\<close> by the user \<open>u\<close> with id \<open>userId\<close>.
\<close>

definition claimedBy :: "objectId \<Rightarrow> objectId \<Rightarrow> user \<Rightarrow> donation list \<Rightarrow> donation list" where
  "claimedBy i userId u ds =
     map (\<lambda>x. if donation_id x = i then stampReceiver userId u x else x) ds"


section \<open>A concrete library and a concrete run\<close>

text \<open>
  A small instance of the library parameter, on which the theorems below are applied
  to concrete requests: a token is the secret followed by as many \<open>+\<close> as the user
  id, a digest is the password behind a \<open>$\<close>.
\<close>

definition testLib :: lib where
  "testLib =
     \<lparr>jwt_sign = (\<lambda>uid secret now. secret @ replicate uid CHR ''+''),
      jwt_verify = (\<lambda>token secret now.
         if take (length secret) token = secret
         then Some (length token - length secret) else None),
      bcrypt_hash = (\<lambda>pw salt. CHR ''$'' # pw),
      bcrypt_compare = (\<lambda>pw digest. digest = CHR ''$'' # pw)\<rparr>"

text \<open>
  The run of the specification's end-to-end scenario up to the claim: a donor and a
  receiver register, the donor posts bread.
\<close>

definition donorBody :: reqBody where
  "donorBody = [''name'' \<mapsto> StringValue ''D'', ''email'' \<mapsto> StringValue ''d@x.com'',
     ''password'' \<mapsto> StringValue ''pd'', ''phone'' \<mapsto> StringValue ''111'',
     ''userType'' \<mapsto> StringValue ''donor'', ''address'' \<mapsto> StringValue ''1 Main St'']"

definition receiverBody :: reqBody where
  "receiverBody = [''name'' \<mapsto> StringValue ''R'', ''email'' \<mapsto> StringValue ''r@x.com'',
     ''password'' \<mapsto> StringValue ''pr'', ''phone'' \<mapsto> StringValue ''222'',
     ''userType'' \<mapsto> StringValue ''receiver'', ''address'' \<mapsto> StringValue ''2 Side St'']"

definition breadBody :: reqBody where
  "breadBody = [''foodName'' \<mapsto> StringValue ''Bread'', ''quantity'' \<mapsto> StringValue ''5 loaves'',
     ''category'' \<mapsto> StringValue ''Bakery'', ''pickupAddress'' \<mapsto> StringValue ''1 Main St'',
     ''expiryTime'' \<mapsto> StringValue ''2025-01-01T18:00'']"

definition emptyBody :: reqBody where
  "emptyBody = Map.empty"

definition bearer :: "objectId \<Rightarrow> string option" where
  "bearer uid = Some (''Bearer '' @ jwt_sign testLib uid JWT_SECRET 0)"

definition scenario :: "(nat \<times> request) list" where
  "scenario = [(1, PostRegister 0 donorBody), (2, PostRegister 0 receiverBody),
               (3, PostDonations (bearer 0) breadBody)]"

definition userD :: user where
  "userD = \<lparr>user_id = 0, name = ''D'', email = ''d@x.com'', password = ''$pd'',
     phone = ''111'', userType = ''donor'', address = ''1 Main St'', user_createdAt = 1\<rparr>"

definition userR :: user where
  "userR = \<lparr>user_id = 1, name = ''R'', email = ''r@x.com'', password = ''$pr'',
     phone = ''222'', userType = ''receiver'', address = ''2 Side St'', user_createdAt = 2\<rparr>"

definition bread :: donation where
  "bread = \<lparr>donation_id = 2, donorId = 0, donorName = ''D'', donorPhone = ''111'',
     foodName = ''Bread'', quantity = ''5 loaves'', category = ''Bakery'',
     description = None, pickupAddress = ''1 Main St'', expiryTime = ''2025-01-01T18:00'',
     status = ''available'', receiverId = None, receiverName = None,
     receiverPhone = None, createdAt = 3\<rparr>"

definition breadStore :: store where
  "breadStore = \<lparr>users = [userD, userR], donations = [bread], nextId = 3\<rparr>"

text \<open>A later store: the bread claimed by the receiver, soup and rice still on offer.\<close>

definition soup :: donation where
  "soup = bread\<lparr>donation_id := 3, foodName := ''Soup'', quantity := ''2 pots'',
     category := ''Cooked'', createdAt := 5\<rparr>"

definition rice :: donation where
  "rice = bread\<lparr>donation_id := 4, foodName := ''Rice'', quantity := ''3 kg'',
     category := ''Grains'', createdAt := 9\<rparr>"

definition mixedStore :: store where
  "mixedStore = \<lparr>users = [userD, userR],
     donations = [stampReceiver 1 userR bread, soup, rice], nextId = 5\<rparr>"

text \<open>The store before that claim: bread, soup and rice on offer.\<close>

definition offerStore :: store where
  "offerStore = \<lparr>users = [userD, userR], donations = [bread, soup, rice], nextId = 5\<rparr>"

definition soupBody :: reqBody where
  "soupBody = [''foodName'' \<mapsto> StringValue ''Soup'', ''quantity'' \<mapsto> StringValue ''2 pots'',
     ''category'' \<mapsto> StringValue ''Cooked'', ''pickupAddress'' \<mapsto> StringValue ''1 Main St'',
     ''expiryTime'' \<mapsto> StringValue ''2025-01-01T18:00'']"

definition riceBody :: reqBody where
  "riceBody = [''foodName'' \<mapsto> StringValue ''Rice'', ''quantity'' \<mapsto> StringValue ''3 kg'',
     ''category'' \<mapsto> StringValue ''Grains'', ''pickupAddress'' \<mapsto> StringValue ''1 Main St'',
     ''expiryTime'' \<mapsto> StringValue ''2025-01-01T18:00'']"

definition offerRequests :: "(nat \<times> request) list" where
  "offerRequests = [(5, PostDonations (bearer 0) soupBody),
                    (9, PostDonations (bearer 0) riceBody)]"

definition laterRequests :: "(nat \<times> request) list" where
  "laterRequests = offerRequests @ [(10, PutClaim (bearer 1) (HexString 2))]"

text \<open>A store with a second receiver, for two claims of the bread at the same time.\<close>

definition userS :: user where
  "userS = \<lparr>user_id = 3, name = ''S'', email = ''s@x.com'', password = ''$ps'',
     phone = ''333'', userType = ''receiver'', address = ''3 Back St'', user_createdAt = 4\<rparr>"

definition secondReceiverBody :: reqBody where
  "secondReceiverBody = [''name'' \<mapsto> StringValue ''S'', ''email'' \<mapsto> StringValue ''s@x.com'',
     ''password'' \<mapsto> StringValue ''ps'', ''phone'' \<mapsto> StringValue ''333'',
     ''userType'' \<mapsto> StringValue ''receiver'', ''address'' \<mapsto> StringValue ''3 Back St'']"

definition raceStore :: store where
  "raceStore = \<lparr>users = [userD, userR, userS], donations = [bread], nextId = 4\<rparr>"

text \<open>
  Login bodies: the donor's; and, with the number 123 for a password, an email nobody
  registered and the donor's email.
\<close>

definition donorLoginBody :: reqBody where
  "donorLoginBody =
     [''email'' \<mapsto> StringValue ''d@x.com'', ''password'' \<mapsto> StringValue ''pd'']"

definition unknownEmailNumberBody :: reqBody where
  "unknownEmailNumberBody =
     [''email'' \<mapsto> StringValue ''n@x.com'', ''password'' \<mapsto> NumberValue ''123'']"

definition knownEmailNumberBody :: reqBody where
  "knownEmailNumberBody =
     [''email'' \<mapsto> StringValue ''d@x.com'', ''password'' \<mapsto> NumberValue ''123'']"

section \<open>The token middleware: properties\<close>

lemma split_no_sep: "sep \<notin> set w \<Longrightarrow> split sep w = [w]"
  by (induction w) auto

lemma split_append_sep:
  "sep \<notin> set w \<Longrightarrow> split sep (w @ sep # t) = w # split sep t"
  by (induction w) auto

text \<open>
  C10. For a header \<open>word token\<close>, where neither part contains a space and the token
  is not empty, \<open>verifyToken\<close> passes on the user id of the token whenever the token
  verifies against \<open>JWT_SECRET\<close>, whatever the word is. A header without a space
  is treated as an absent header: 401, no token provided.
\<close>

theorem verifyToken_scheme_ignored:
  "(CHR '' '' \<notin> set word \<and> CHR '' '' \<notin> set tok \<and> tok \<noteq> [] \<and>
      jwt_verify L tok JWT_SECRET now = Some uid
      \<longrightarrow> verifyToken L now (Some (word @ '' '' @ tok)) = Inr uid) \<and>
   (CHR '' '' \<notin> set h
      \<longrightarrow> verifyToken L now (Some h) = verifyToken L now None \<and>
          verifyToken L now (Some h) = Inl (respond 401 (message ''No token provided'')))"
  by (simp add: verifyToken_def arrayAt_def split_append_sep split_no_sep falsy_def)

theorem verifyToken_scheme_ignored_witness:
  "verifyToken testLib 0 (Some (''Basic'' @ '' '' @ (JWT_SECRET @ ''++''))) = Inr 2 \<and>
   verifyToken testLib 0 (Some ''Bearer'') = Inl (respond 401 (message ''No token provided''))"
proof -
  have a: "CHR '' '' \<notin> set ''Basic'' \<and> CHR '' '' \<notin> set (JWT_SECRET @ ''++'') \<and>
           JWT_SECRET @ ''++'' \<noteq> [] \<and>
           jwt_verify testLib (JWT_SECRET @ ''++'') JWT_SECRET 0 = Some 2"
    by (simp add: testLib_def JWT_SECRET_def)
  have b: "CHR '' '' \<notin> set ''Bearer''"
    by simp
  from a b verifyToken_scheme_ignored [of "''Basic''" "JWT_SECRET @ ''++''" testLib 0 2 "''Bearer''"]
  show ?thesis by blast
qed

section \<open>The concrete run\<close>

lemmas run_defs = emptyStore_def register_def createDonation_def missingDonationField_def
  falsy_def falsyField_def fieldString_def bcryptHash_def arrayAt_def findUserByEmail_def findUserById_def testLib_def drawId_def saveUser_def
  insertDonation_def validateUser_def validateDonation_def bearer_def verifyToken_def
  JWT_SECRET_def Let_def

lemmas fixture_defs = userD_def userR_def bread_def soup_def rice_def

lemma serve_scenario: "serve testLib emptyStore scenario = breadStore"
  by (simp add: run_defs fixture_defs scenario_def breadStore_def donorBody_def
      receiverBody_def breadBody_def)

lemma serve_offerRequests: "serve testLib breadStore offerRequests = offerStore"
  by (simp add: run_defs fixture_defs offerRequests_def breadStore_def offerStore_def
      soupBody_def riceBody_def)

lemma serve_laterRequests: "serve testLib breadStore laterRequests = mixedStore"
  by (simp add: run_defs fixture_defs laterRequests_def offerRequests_def breadStore_def
      mixedStore_def
      soupBody_def riceBody_def claimDonation_def claimUser_def claimLoad_def claimSave_def
      findDonationById_def updateDonation_def stampReceiver_def setClaim_def)

lemma serve_secondReceiver:
  "serve testLib breadStore [(4, PostRegister 0 secondReceiverBody)] = raceStore"
  by (simp add: run_defs fixture_defs userS_def breadStore_def raceStore_def
      secondReceiverBody_def)

lemma reachable_serve: "reachable L s \<Longrightarrow> reachable L (serve L s rs)"
proof (induction rs arbitrary: s)
  case Nil
  then show ?case by simp
next
  case (Cons r rs)
  obtain now req where r: "r = (now, req)" by (cases r)
  have "reachable L (snd (handle L now s req))"
    using Cons.prems by (rule reachable_handle)
  then have "reachable L (serve L (snd (handle L now s req)) rs)"
    by (rule Cons.IH)
  then show ?case by (simp add: r)
qed

lemma reachable_breadStore: "reachable testLib breadStore"
  using reachable_serve [OF reachable_empty, of testLib scenario] by (simp add: serve_scenario)

lemma reachable_offerStore: "reachable testLib offerStore"
  using reachable_serve [OF reachable_breadStore, of offerRequests]
  by (simp add: serve_offerRequests)

lemma reachable_mixedStore: "reachable testLib mixedStore"
  using reachable_serve [OF reachable_breadStore, of laterRequests]
  by (simp add: serve_laterRequests)

lemma reachable_raceStore: "reachable testLib raceStore"
  using reachable_serve [OF reachable_breadStore, of "[(4, PostRegister 0 secondReceiverBody)]"]
  by (simp only: serve_secondReceiver)

section \<open>What a request does to the collections\<close>

lemma find_append_None:
  "find P xs = None \<Longrightarrow> find P (xs @ [y]) = (if P y then Some y else None)"
  by (induction xs) auto

lemma find_append_Some: "find P xs = Some x \<Longrightarrow> find P (xs @ ys) = Some x"
  by (induction xs) (auto split: if_splits)

lemma find_donation_id: "find (\<lambda>x. donation_id x = i) ds = Some d \<Longrightarrow> donation_id d = i"
  by (induction ds) (auto split: if_splits)

lemma setClaim_stampReceiver: "setClaim (stampReceiver uid u d) x = stampReceiver uid u x"
  by (simp add: setClaim_def stampReceiver_def)

lemma donation_id_stampReceiver: "donation_id (stampReceiver uid u d) = donation_id d"
  by (simp add: stampReceiver_def)

lemma status_stampReceiver: "status (stampReceiver uid u x) = ''claimed''"
  by (simp add: stampReceiver_def)

lemma validateDonation_stampReceiver:
  "validateDonation x \<Longrightarrow> validateDonation (stampReceiver uid u x)"
  by (simp add: validateDonation_def stampReceiver_def)

lemma find_claimedBy_same:
  "find (\<lambda>x. donation_id x = i) (claimedBy i uid u ds) =
     map_option (stampReceiver uid u) (find (\<lambda>x. donation_id x = i) ds)"
  by (induction ds) (auto simp: claimedBy_def donation_id_stampReceiver)

lemma find_claimedBy_other:
  "j \<noteq> i \<Longrightarrow>
   find (\<lambda>x. donation_id x = j) (claimedBy i uid u ds) = find (\<lambda>x. donation_id x = j) ds"
  by (induction ds) (auto simp: claimedBy_def donation_id_stampReceiver)

lemma findUserByEmail_drawId: "findUserByEmail (drawId s) e = findUserByEmail s e"
  by (simp add: findUserByEmail_def drawId_def)

lemma register_donations: "donations (snd (register L now salt s b)) = donations s"
  by (simp add: register_def saveUser_def drawId_def Let_def split: option.splits sum.splits)

lemma createDonation_effect:
  "users (snd (createDonation now s uid b)) = users s \<and>
   (donations (snd (createDonation now s uid b)) = donations s \<or>
    (\<exists>d. donations (snd (createDonation now s uid b)) = donations s @ [d] \<and>
         status d = ''available'' \<and> validateDonation d))"
  by (auto simp: createDonation_def insertDonation_def drawId_def Let_def split: option.splits)

text \<open>The claim handler either leaves the store as it is and does not answer 200, or it succeeds.\<close>

lemma claimDonation_effect:
  "(snd (claimDonation s uid a) = s \<and> statusCode (fst (claimDonation s uid a)) \<noteq> 200) \<or>
   (\<exists>i u d. a = HexString i \<and> findUserById s uid = Some u \<and> userType u = ''receiver'' \<and>
      find (\<lambda>x. donation_id x = i) (donations s) = Some d \<and> status d = ''available'' \<and>
      validateDonation (stampReceiver uid u d) \<and>
      claimDonation s uid a =
        (respond 200 (JObject [(''message'', JString ''Donation claimed successfully''),
                               (''donation'', JDonation (stampReceiver uid u d))]),
         s\<lparr>donations := claimedBy i uid u (donations s)\<rparr>))"
proof (cases "claimUser s uid")
  case (Inl r)
  then show ?thesis
    by (auto simp: claimDonation_def claimUser_def respond_def split: option.splits if_splits)
next
  case (Inr u)
  then have u: "findUserById s uid = Some u" "userType u = ''receiver''"
    by (auto simp: claimUser_def split: option.splits if_splits)
  show ?thesis
  proof (cases "claimLoad s a")
    case (Inl r)
    then have "statusCode r \<noteq> 200"
      by (auto simp: claimLoad_def respond_def serverError_def
          split: sum.splits option.splits if_splits)
    then show ?thesis using Inr Inl by (simp add: claimDonation_def)
  next
    case d: (Inr d)
    then obtain i where i: "a = HexString i"
      "find (\<lambda>x. donation_id x = i) (donations s) = Some d" "status d = ''available''"
      by (cases a) (auto simp: claimLoad_def findDonationById_def split: option.splits if_splits)
    have did: "donation_id d = i"
      using i(2) by (rule find_donation_id)
    show ?thesis
    proof (cases "validateDonation (stampReceiver uid u d)")
      case True
      then show ?thesis
        using Inr d u i did
        by (simp add: claimDonation_def claimSave_def updateDonation_def Let_def claimedBy_def
            setClaim_stampReceiver donation_id_stampReceiver)
    next
      case False
      then show ?thesis
        using Inr d
        by (simp add: claimDonation_def claimSave_def updateDonation_def Let_def
            serverError_def respond_def)
    qed
  qed
qed

lemma handle_effect:
  "donations (snd (handle L now s req)) = donations s \<or>
   (\<exists>d. donations (snd (handle L now s req)) = donations s @ [d] \<and>
        status d = ''available'' \<and> validateDonation d) \<or>
   (\<exists>i uid u d. donations (snd (handle L now s req)) = claimedBy i uid u (donations s) \<and>
        find (\<lambda>x. donation_id x = i) (donations s) = Some d \<and> status d = ''available'' \<and>
        validateDonation (stampReceiver uid u d))"
proof (cases req)
  case (PostRegister salt b)
  then show ?thesis by (simp add: register_donations)
next
  case (PostDonations h b)
  show ?thesis
  proof (cases "verifyToken L now h")
    case (Inl r)
    then show ?thesis using PostDonations by simp
  next
    case (Inr uid)
    then show ?thesis
      using PostDonations createDonation_effect [of now s uid b] by auto
  qed
next
  case (PutClaim h a)
  show ?thesis
  proof (cases "verifyToken L now h")
    case (Inl r)
    then show ?thesis using PutClaim by simp
  next
    case (Inr uid)
    from claimDonation_effect [of s uid a] show ?thesis
    proof
      assume "snd (claimDonation s uid a) = s \<and> statusCode (fst (claimDonation s uid a)) \<noteq> 200"
      then show ?thesis using PutClaim Inr by simp
    next
      assume "\<exists>i u d. a = HexString i \<and> findUserById s uid = Some u \<and> userType u = ''receiver'' \<and>
        find (\<lambda>x. donation_id x = i) (donations s) = Some d \<and> status d = ''available'' \<and>
        validateDonation (stampReceiver uid u d) \<and>
        claimDonation s uid a =
          (respond 200 (JObject [(''message'', JString ''Donation claimed successfully''),
                                 (''donation'', JDonation (stampReceiver uid u d))]),
           s\<lparr>donations := claimedBy i uid u (donations s)\<rparr>)"
      then obtain i u d where
        "find (\<lambda>x. donation_id x = i) (donations s) = Some d" "status d = ''available''"
        "validateDonation (stampReceiver uid u d)"
        "snd (claimDonation s uid a) = s\<lparr>donations := claimedBy i uid u (donations s)\<rparr>"
        by auto
      then have "\<exists>i uid u d. donations (snd (handle L now s req)) = claimedBy i uid u (donations s) \<and>
        find (\<lambda>x. donation_id x = i) (donations s) = Some d \<and> status d = ''available'' \<and>
        validateDonation (stampReceiver uid u d)"
        using PutClaim Inr by auto
      then show ?thesis by blast
    qed
  qed
qed (simp_all split: sum.splits)

lemma handle_valid:
  assumes "\<forall>d \<in> set (donations s). validateDonation d"
  shows "\<forall>d \<in> set (donations (snd (handle L now s req))). validateDonation d"
  using handle_effect [of L now s req] assms
  by (auto simp: claimedBy_def validateDonation_stampReceiver)

lemma reachable_valid: "reachable L s \<Longrightarrow> \<forall>d \<in> set (donations s). validateDonation d"
proof (induction rule: reachable.induct)
  case reachable_empty
  show ?case by (simp add: emptyStore_def)
next
  case (reachable_handle s now req)
  then show ?case by (intro handle_valid)
qed

section \<open>Claiming\<close>

text \<open>
  C1. In a store that the application can reach, a claim by an absent user gets 404; by
  a user whose role is not \<open>receiver\<close>, 403; by a receiver for an absent donation,
  404; by a receiver for a donation whose status is not \<open>available\<close>, 400; each
  without a change of the store, and in this order of precedence. A claim by a
  receiver for an available donation gets 200, and the stored donation then has
  status \<open>claimed\<close> and the receiver's id, name and phone.
\<close>

theorem claimDonation_checks_in_order:
  assumes "reachable L s"
  shows
    "(findUserById s uid = None \<longrightarrow>
        claimDonation s uid a = (respond 404 (message ''User not found''), s)) \<and>
     (\<forall>u. findUserById s uid = Some u \<and> userType u \<noteq> ''receiver'' \<longrightarrow>
        claimDonation s uid a = (respond 403 (message ''Only receivers can claim donations''), s)) \<and>
     (\<forall>u. findUserById s uid = Some u \<and> userType u = ''receiver'' \<longrightarrow>
        (findDonationById s a = Inr None \<longrightarrow>
           claimDonation s uid a = (respond 404 (message ''Donation not found''), s)) \<and>
        (\<forall>d. findDonationById s a = Inr (Some d) \<and> status d \<noteq> ''available'' \<longrightarrow>
           claimDonation s uid a =
             (respond 400 (message ''This donation is no longer available''), s)) \<and>
        (\<forall>d. findDonationById s a = Inr (Some d) \<and> status d = ''available'' \<longrightarrow>
           fst (claimDonation s uid a) =
             respond 200 (JObject [(''message'', JString ''Donation claimed successfully''),
               (''donation'', JDonation (d\<lparr>status := ''claimed'', receiverId := Some uid,
                  receiverName := Some (name u), receiverPhone := Some (phone u)\<rparr>))]) \<and>
           findDonationById (snd (claimDonation s uid a)) a =
             Inr (Some (d\<lparr>status := ''claimed'', receiverId := Some uid,
                  receiverName := Some (name u), receiverPhone := Some (phone u)\<rparr>))))"
proof -
  have a: "findUserById s uid = None \<longrightarrow>
        claimDonation s uid a = (respond 404 (message ''User not found''), s)"
    by (simp add: claimDonation_def claimUser_def)
  have b: "\<forall>u. findUserById s uid = Some u \<and> userType u \<noteq> ''receiver'' \<longrightarrow>
        claimDonation s uid a = (respond 403 (message ''Only receivers can claim donations''), s)"
    by (simp add: claimDonation_def claimUser_def)
  have c: "findDonationById s a = Inr None \<longrightarrow>
           claimDonation s uid a = (respond 404 (message ''Donation not found''), s)"
    if "findUserById s uid = Some u" and "userType u = ''receiver''" for u
    using that by (simp add: claimDonation_def claimUser_def claimLoad_def)
  have d: "claimDonation s uid a =
             (respond 400 (message ''This donation is no longer available''), s)"
    if "findUserById s uid = Some u" and "userType u = ''receiver''"
      and "findDonationById s a = Inr (Some d)" and "status d \<noteq> ''available''" for u d
    using that by (simp add: claimDonation_def claimUser_def claimLoad_def)
  have e: "fst (claimDonation s uid a) =
             respond 200 (JObject [(''message'', JString ''Donation claimed successfully''),
               (''donation'', JDonation (stampReceiver uid u d))]) \<and>
           findDonationById (snd (claimDonation s uid a)) a = Inr (Some (stampReceiver uid u d))"
    if h1: "findUserById s uid = Some u" and h2: "userType u = ''receiver''"
      and h3: "findDonationById s a = Inr (Some d)" and h4: "status d = ''available''" for u d
  proof -
    obtain i where i: "a = HexString i" "find (\<lambda>x. donation_id x = i) (donations s) = Some d"
      using h3 by (cases a) (auto simp: findDonationById_def)
    have "d \<in> set (donations s)"
      using i(2) by (auto simp: find_Some_iff)
    then have "validateDonation d"
      using reachable_valid [OF assms] by blast
    then have v: "validateDonation (stampReceiver uid u d)"
      by (rule validateDonation_stampReceiver)
    have did: "donation_id d = i"
      using i(2) by (rule find_donation_id)
    have "claimDonation s uid a =
        (respond 200 (JObject [(''message'', JString ''Donation claimed successfully''),
                               (''donation'', JDonation (stampReceiver uid u d))]),
         s\<lparr>donations := claimedBy i uid u (donations s)\<rparr>)"
      using h1 h2 h4 i v did
      by (simp add: claimDonation_def claimUser_def claimLoad_def claimSave_def
          findDonationById_def updateDonation_def Let_def claimedBy_def setClaim_stampReceiver
          donation_id_stampReceiver)
    then show ?thesis
      using i by (simp add: findDonationById_def find_claimedBy_same)
  qed
  from a b c d e show ?thesis
    unfolding stampReceiver_def by blast
qed

theorem claimDonation_checks_in_order_witness:
  "claimDonation breadStore 7 (HexString 2) = (respond 404 (message ''User not found''), breadStore) \<and>
   claimDonation breadStore 0 (HexString 2) =
     (respond 403 (message ''Only receivers can claim donations''), breadStore) \<and>
   claimDonation breadStore 1 (HexString 9) =
     (respond 404 (message ''Donation not found''), breadStore) \<and>
   claimDonation mixedStore 1 (HexString 2) =
     (respond 400 (message ''This donation is no longer available''), mixedStore) \<and>
   fst (claimDonation breadStore 1 (HexString 2)) =
     respond 200 (JObject [(''message'', JString ''Donation claimed successfully''),
       (''donation'', JDonation (bread\<lparr>status := ''claimed'', receiverId := Some 1,
          receiverName := Some ''R'', receiverPhone := Some ''222''\<rparr>))]) \<and>
   findDonationById (snd (claimDonation breadStore 1 (HexString 2))) (HexString 2) =
     Inr (Some (bread\<lparr>status := ''claimed'', receiverId := Some 1,
          receiverName := Some ''R'', receiverPhone := Some ''222''\<rparr>))"
proof -
  have u7: "findUserById breadStore 7 = None"
    by (simp add: findUserById_def breadStore_def fixture_defs)
  have u0: "findUserById breadStore 0 = Some userD \<and> userType userD \<noteq> ''receiver''"
    by (simp add: findUserById_def breadStore_def fixture_defs)
  have u1: "findUserById breadStore 1 = Some userR \<and> userType userR = ''receiver''"
    by (simp add: findUserById_def breadStore_def fixture_defs)
  have m1: "findUserById mixedStore 1 = Some userR \<and> userType userR = ''receiver''"
    by (simp add: findUserById_def mixedStore_def fixture_defs)
  have d9: "findDonationById breadStore (HexString 9) = Inr None"
    by (simp add: findDonationById_def breadStore_def fixture_defs)
  have d2: "findDonationById breadStore (HexString 2) = Inr (Some bread) \<and>
            status bread = ''available''"
    by (simp add: findDonationById_def breadStore_def fixture_defs)
  have m2: "findDonationById mixedStore (HexString 2) = Inr (Some (stampReceiver 1 userR bread)) \<and>
            status (stampReceiver 1 userR bread) \<noteq> ''available''"
    by (simp add: findDonationById_def mixedStore_def stampReceiver_def fixture_defs)
  have nm: "name userR = ''R'' \<and> phone userR = ''222''"
    by (simp add: userR_def)
  note b = claimDonation_checks_in_order [OF reachable_breadStore]
  note m = claimDonation_checks_in_order [OF reachable_mixedStore]
  from u7 b [of 7 "HexString 2"]
  have 1: "claimDonation breadStore 7 (HexString 2) =
             (respond 404 (message ''User not found''), breadStore)"
    by blast
  from u0 b [of 0 "HexString 2"]
  have 2: "claimDonation breadStore 0 (HexString 2) =
             (respond 403 (message ''Only receivers can claim donations''), breadStore)"
    by blast
  from u1 d9 b [of 1 "HexString 9"]
  have 3: "claimDonation breadStore 1 (HexString 9) =
             (respond 404 (message ''Donation not found''), breadStore)"
    by blast
  from m1 m2 m [of 1 "HexString 2"]
  have 4: "claimDonation mixedStore 1 (HexString 2) =
             (respond 400 (message ''This donation is no longer available''), mixedStore)"
    by blast
  from u1 d2 b [of 1 "HexString 2"]
  have 5: "fst (claimDonation breadStore 1 (HexString 2)) =
     respond 200 (JObject [(''message'', JString ''Donation claimed successfully''),
       (''donation'', JDonation (bread\<lparr>status := ''claimed'', receiverId := Some 1,
          receiverName := Some (name userR), receiverPhone := Some (phone userR)\<rparr>))]) \<and>
   findDonationById (snd (claimDonation breadStore 1 (HexString 2))) (HexString 2) =
     Inr (Some (bread\<lparr>status := ''claimed'', receiverId := Some 1,
          receiverName := Some (name userR), receiverPhone := Some (phone userR)\<rparr>))"
    by blast
  from 1 2 3 4 5 nm show ?thesis
    by simp
qed

section \<open>One claim per donation\<close>

lemma handle_keeps_claimed:
  assumes f: "find (\<lambda>x. donation_id x = i) (donations s) = Some d"
    and st: "status d \<noteq> ''available''"
  shows "find (\<lambda>x. donation_id x = i) (donations (snd (handle L now s req))) = Some d"
proof -
  let ?s' = "snd (handle L now s req)"
  from handle_effect [of L now s req]
  consider (same) "donations ?s' = donations s"
    | (new) d' where "donations ?s' = donations s @ [d']"
    | (claim) j uid u d' where "donations ?s' = claimedBy j uid u (donations s)"
        "find (\<lambda>x. donation_id x = j) (donations s) = Some d'" "status d' = ''available''"
    by blast
  then show ?thesis
  proof cases
    case same
    then show ?thesis using f by simp
  next
    case new
    then show ?thesis using f by (simp add: find_append_Some)
  next
    case claim
    have "j \<noteq> i"
      using claim(2,3) f st by auto
    then have "i \<noteq> j" by simp
    then show ?thesis
      using claim(1) f by (simp add: find_claimedBy_other)
  qed
qed

lemma serve_keeps_claimed:
  "find (\<lambda>x. donation_id x = i) (donations s) = Some d \<Longrightarrow> status d \<noteq> ''available'' \<Longrightarrow>
   find (\<lambda>x. donation_id x = i) (donations (serve L s rs)) = Some d"
proof (induction rs arbitrary: s)
  case Nil
  then show ?case by simp
next
  case (Cons r rs)
  obtain now req where r: "r = (now, req)" by (cases r)
  have "find (\<lambda>x. donation_id x = i) (donations (snd (handle L now s req))) = Some d"
    using Cons.prems by (rule handle_keeps_claimed)
  then have "find (\<lambda>x. donation_id x = i)
      (donations (serve L (snd (handle L now s req)) rs)) = Some d"
    using Cons.prems(2) by (rule Cons.IH)
  then show ?case by (simp add: r)
qed

lemma claimDonation_rejected:
  assumes "findDonationById s a = Inr (Some d)" and "status d \<noteq> ''available''"
  shows "snd (claimDonation s uid a) = s \<and>
         statusCode (fst (claimDonation s uid a)) \<in> {404, 403, 400} \<and>
         (\<forall>u. findUserById s uid = Some u \<and> userType u = ''receiver'' \<longrightarrow>
            fst (claimDonation s uid a) =
              respond 400 (message ''This donation is no longer available''))"
  using assms
  by (auto simp: claimDonation_def claimUser_def claimLoad_def respond_def
      split: option.splits)

text \<open>
  C2. After a claim that got 200, and after any further requests served one after the
  other, the donation is still stored with status \<open>claimed\<close> and with the id, name
  and phone of the user who claimed it; a further claim of it by anybody leaves the
  store unchanged and gets 404, 403 or 400, and by a user whose role is \<open>receiver\<close>
  it gets 400, no longer available.
\<close>

theorem claim_succeeds_at_most_once:
  assumes "claimDonation s uid1 a = (r1, s1)" and "statusCode r1 = 200"
  shows "\<exists>u1 d. findUserById s uid1 = Some u1 \<and>
           findDonationById (serve L s1 rs) a = Inr (Some d) \<and>
           status d = ''claimed'' \<and> receiverId d = Some uid1 \<and>
           receiverName d = Some (name u1) \<and> receiverPhone d = Some (phone u1) \<and>
           (\<forall>uid2. snd (claimDonation (serve L s1 rs) uid2 a) = serve L s1 rs \<and>
              statusCode (fst (claimDonation (serve L s1 rs) uid2 a)) \<in> {404, 403, 400} \<and>
              (\<forall>u2. findUserById (serve L s1 rs) uid2 = Some u2 \<and> userType u2 = ''receiver'' \<longrightarrow>
                 fst (claimDonation (serve L s1 rs) uid2 a) =
                   respond 400 (message ''This donation is no longer available'')))"
proof -
  from claimDonation_effect [of s uid1 a] assms
  obtain i u1 d0 where ok: "a = HexString i" "findUserById s uid1 = Some u1"
    "find (\<lambda>x. donation_id x = i) (donations s) = Some d0"
    "s1 = s\<lparr>donations := claimedBy i uid1 u1 (donations s)\<rparr>"
    by auto
  let ?d = "stampReceiver uid1 u1 d0"
  have "find (\<lambda>x. donation_id x = i) (donations s1) = Some ?d"
    using ok by (simp add: find_claimedBy_same)
  moreover have ne: "status ?d \<noteq> ''available''"
    by (simp add: stampReceiver_def)
  ultimately have "find (\<lambda>x. donation_id x = i) (donations (serve L s1 rs)) = Some ?d"
    by (rule serve_keeps_claimed)
  then have later: "findDonationById (serve L s1 rs) a = Inr (Some ?d)"
    using ok(1) by (simp add: findDonationById_def)
  have fields: "status ?d = ''claimed'' \<and> receiverId ?d = Some uid1 \<and>
      receiverName ?d = Some (name u1) \<and> receiverPhone ?d = Some (phone u1)"
    by (simp add: stampReceiver_def)
  have "\<forall>uid2. snd (claimDonation (serve L s1 rs) uid2 a) = serve L s1 rs \<and>
      statusCode (fst (claimDonation (serve L s1 rs) uid2 a)) \<in> {404, 403, 400} \<and>
      (\<forall>u2. findUserById (serve L s1 rs) uid2 = Some u2 \<and> userType u2 = ''receiver'' \<longrightarrow>
         fst (claimDonation (serve L s1 rs) uid2 a) =
           respond 400 (message ''This donation is no longer available''))"
    using claimDonation_rejected [OF later ne] by blast
  with ok(2) later fields show ?thesis by blast
qed

theorem claim_succeeds_at_most_once_witness:
  "findDonationById (serve testLib mixedStore [(11, PostDonations (bearer 0) breadBody)])
     (HexString 2) =
     Inr (Some (stampReceiver 1 userR bread)) \<and>
   claimDonation (serve testLib mixedStore [(11, PostDonations (bearer 0) breadBody)]) 1
     (HexString 2) =
     (respond 400 (message ''This donation is no longer available''),
      serve testLib mixedStore [(11, PostDonations (bearer 0) breadBody)])"
proof -
  let ?rs = "[(11, PostDonations (bearer 0) breadBody)]"
  let ?s = "serve testLib mixedStore ?rs"
  have c: "claimDonation breadStore 1 (HexString 2) =
      (respond 200 (JObject [(''message'', JString ''Donation claimed successfully''),
         (''donation'', JDonation (stampReceiver 1 userR bread))]),
       breadStore\<lparr>donations := [stampReceiver 1 userR bread]\<rparr>)"
    by (simp add: claimDonation_def claimUser_def claimLoad_def claimSave_def
        findUserById_def findDonationById_def updateDonation_def validateDonation_def
        setClaim_def stampReceiver_def breadStore_def fixture_defs Let_def)
  have k: "statusCode (respond 200 (JObject [(''message'', JString ''Donation claimed successfully''),
         (''donation'', JDonation (stampReceiver 1 userR bread))])) = 200"
    by (simp add: respond_def)
  have u: "findUserById breadStore 1 = Some userR"
    by (simp add: findUserById_def breadStore_def fixture_defs)
  have e: "serve testLib (breadStore\<lparr>donations := [stampReceiver 1 userR bread]\<rparr>)
             [(5, PostDonations (bearer 0) soupBody), (9, PostDonations (bearer 0) riceBody),
              (11, PostDonations (bearer 0) breadBody)] = ?s"
    by (simp add: run_defs fixture_defs breadStore_def mixedStore_def soupBody_def riceBody_def
        breadBody_def stampReceiver_def)
  have r: "findUserById ?s 1 = Some userR \<and> userType userR = ''receiver''"
    by (simp add: run_defs fixture_defs mixedStore_def breadBody_def stampReceiver_def)
  from claim_succeeds_at_most_once [OF c k, of testLib
      "[(5, PostDonations (bearer 0) soupBody), (9, PostDonations (bearer 0) riceBody),
        (11, PostDonations (bearer 0) breadBody)]"]
  obtain u1 d where w: "findUserById breadStore 1 = Some u1"
    "findDonationById ?s (HexString 2) = Inr (Some d)"
    "status d = ''claimed''" "receiverId d = Some 1" "receiverName d = Some (name u1)"
    "\<forall>uid2. snd (claimDonation ?s uid2 (HexString 2)) = ?s \<and>
       statusCode (fst (claimDonation ?s uid2 (HexString 2))) \<in> {404, 403, 400} \<and>
       (\<forall>u2. findUserById ?s uid2 = Some u2 \<and> userType u2 = ''receiver'' \<longrightarrow>
          fst (claimDonation ?s uid2 (HexString 2)) =
            respond 400 (message ''This donation is no longer available''))"
    unfolding e by blast
  have d: "findDonationById ?s (HexString 2) = Inr (Some (stampReceiver 1 userR bread))"
    by (simp add: run_defs fixture_defs mixedStore_def breadBody_def stampReceiver_def
        findDonationById_def)
  from w(6) r have "snd (claimDonation ?s 1 (HexString 2)) = ?s \<and>
      fst (claimDonation ?s 1 (HexString 2)) =
        respond 400 (message ''This donation is no longer available'')"
    by blast
  then have "claimDonation ?s 1 (HexString 2) =
      (respond 400 (message ''This donation is no longer available''), ?s)"
    by (simp add: prod_eq_iff)
  with d show ?thesis by simp
qed

section \<open>What a claim leaves alone\<close>









section \<open>Two claims at the same time\<close>

text \<open>One claim request alone, resumed three times, is the handler run without interruption.\<close>

lemma interleave_alone:
  "interleave s [AtStart uid a] [0, 0, 0] =
     ([Sent (fst (claimDonation s uid a))], snd (claimDonation s uid a))"
  by (auto simp: claimDonation_def split: sum.splits prod.splits)

text \<open>
  C3. The handler reads the donation, tests its status, and writes it back after a
  further await; the write carries no condition on the status. Two receivers R and S
  who claim the bread at the same time, each resumed in turn, both find it available
  and both get 200; R is told that the bread is R's, and the store ends with S as the
  receiver.
\<close>

theorem concurrent_claims_both_succeed:
  "reachable testLib raceStore \<and>
   interleave raceStore [AtStart 1 (HexString 2), AtStart 3 (HexString 2)] [0, 1, 0, 1, 0, 1] =
     ([Sent (respond 200 (JObject [(''message'', JString ''Donation claimed successfully''),
                                   (''donation'', JDonation (stampReceiver 1 userR bread))])),
       Sent (respond 200 (JObject [(''message'', JString ''Donation claimed successfully''),
                                   (''donation'', JDonation (stampReceiver 3 userS bread))]))],
      raceStore\<lparr>donations := [stampReceiver 3 userS bread]\<rparr>)"
proof -
  have "interleave raceStore [AtStart 1 (HexString 2), AtStart 3 (HexString 2)]
          [0, 1, 0, 1, 0, 1] =
     ([Sent (respond 200 (JObject [(''message'', JString ''Donation claimed successfully''),
                                   (''donation'', JDonation (stampReceiver 1 userR bread))])),
       Sent (respond 200 (JObject [(''message'', JString ''Donation claimed successfully''),
                                   (''donation'', JDonation (stampReceiver 3 userS bread))]))],
      raceStore\<lparr>donations := [stampReceiver 3 userS bread]\<rparr>)"
    by (simp add: raceStore_def claimUser_def claimLoad_def claimSave_def findUserById_def
        findDonationById_def updateDonation_def validateDonation_def setClaim_def
        stampReceiver_def fixture_defs userS_def Let_def)
  with reachable_raceStore show ?thesis
    by (rule conjI)
qed

section \<open>The status of a donation\<close>

lemma handle_status:
  assumes "k < length (donations (snd (handle L now s req)))"
  shows "status (donations (snd (handle L now s req)) ! k) = ''available'' \<or>
         status (donations (snd (handle L now s req)) ! k) = ''claimed'' \<or>
         (k < length (donations s) \<and>
          status (donations (snd (handle L now s req)) ! k) = status (donations s ! k))"
proof -
  let ?s' = "snd (handle L now s req)"
  from handle_effect [of L now s req]
  consider (same) "donations ?s' = donations s"
    | (new) d where "donations ?s' = donations s @ [d]" "status d = ''available''"
    | (claim) i uid u where "donations ?s' = claimedBy i uid u (donations s)"
    by blast
  then show ?thesis
  proof cases
    case same
    then show ?thesis using assms by simp
  next
    case new
    then show ?thesis using assms by (auto simp: nth_append)
  next
    case claim
    then show ?thesis using assms by (auto simp: claimedBy_def status_stampReceiver)
  qed
qed

text \<open>
  C5. In every store that the application can reach, the status of every donation is
  \<open>available\<close> or \<open>claimed\<close>, never \<open>completed\<close>. For, whatever the store, a
  request leaves each donation with the status \<open>available\<close>, or with the status
  \<open>claimed\<close>, or with the status it had before the request.
\<close>

theorem completed_unreachable:
  "(reachable L s \<longrightarrow>
      (\<forall>d \<in> set (donations s). (status d = ''available'' \<or> status d = ''claimed'') \<and>
                               status d \<noteq> ''completed'')) \<and>
   (\<forall>k < length (donations (snd (handle L now t req))).
      status (donations (snd (handle L now t req)) ! k) = ''available'' \<or>
      status (donations (snd (handle L now t req)) ! k) = ''claimed'' \<or>
      (k < length (donations t) \<and>
       status (donations (snd (handle L now t req)) ! k) = status (donations t ! k)))"
proof -
  have inv: "\<forall>d \<in> set (donations s). (status d = ''available'' \<or> status d = ''claimed'') \<and>
                                  status d \<noteq> ''completed''"
    if "reachable L s"
    using that
  proof (induction rule: reachable.induct)
    case reachable_empty
    show ?case by (simp add: emptyStore_def)
  next
    case (reachable_handle s now req)
    with handle_effect [of L now s req] show ?case
      by (auto simp: claimedBy_def status_stampReceiver)
  qed
  from inv handle_status [of _ L now t req] show ?thesis
    by blast
qed

theorem completed_unreachable_witness:
  "(status (stampReceiver 1 userR bread) = ''available'' \<or>
    status (stampReceiver 1 userR bread) = ''claimed'') \<and>
   status (stampReceiver 1 userR bread) \<noteq> ''completed'' \<and>
   (status soup = ''available'' \<or> status soup = ''claimed'') \<and>
   status soup \<noteq> ''completed'' \<and>
   (status (donations (snd (handle testLib 10 offerStore (PutClaim (bearer 1) (HexString 3)))) ! 1)
      = ''available'' \<or>
    status (donations (snd (handle testLib 10 offerStore (PutClaim (bearer 1) (HexString 3)))) ! 1)
      = ''claimed'' \<or>
    1 < length (donations offerStore) \<and>
    status (donations (snd (handle testLib 10 offerStore (PutClaim (bearer 1) (HexString 3)))) ! 1)
      = status (donations offerStore ! 1))"
proof -
  have m: "set (donations mixedStore) = {stampReceiver 1 userR bread, soup, rice}"
    by (simp add: mixedStore_def)
  have "snd (handle testLib 10 offerStore (PutClaim (bearer 1) (HexString 3))) =
          offerStore\<lparr>donations := [bread, stampReceiver 1 userR soup, rice]\<rparr>"
    by (simp add: run_defs fixture_defs offerStore_def claimDonation_def claimUser_def
        claimLoad_def claimSave_def findDonationById_def updateDonation_def stampReceiver_def
        setClaim_def)
  then have k: "1 < length (donations
      (snd (handle testLib 10 offerStore (PutClaim (bearer 1) (HexString 3)))))"
    by simp
  from completed_unreachable
    [of testLib mixedStore 10 offerStore "PutClaim (bearer 1) (HexString 3)"]
    reachable_mixedStore m k
  show ?thesis
    by simp
qed

section \<open>Creating a donation\<close>

text \<open>
  C4, as the claim states it. A receiver who posts a body without the required fields
  gets 400, not 403: the handler looks at the body before it looks the user up.
\<close>

theorem createDonation_forbidden_first_counterexample:
  "reachable testLib breadStore \<and>
   findUserById breadStore 1 = Some userR \<and> userType userR = ''receiver'' \<and>
   createDonation 4 breadStore 1 emptyBody =
     (respond 400 (message ''All required fields must be filled''), breadStore) \<and>
   statusCode (fst (createDonation 4 breadStore 1 emptyBody)) \<noteq> 403"
  using reachable_breadStore
  by (simp add: createDonation_def missingDonationField_def falsyField_def emptyBody_def
      findUserById_def breadStore_def fixture_defs respond_def)

text \<open>
  C4, amended. A body in which a required field is missing or empty gets 400 whoever
  posts it. Only for a body with all five required fields does the handler look the
  user up: an absent user gets 404, a user whose role is not \<open>donor\<close>, a receiver
  in particular, gets 403.
\<close>

theorem createDonation_validates_first:
  "(missingDonationField b \<longrightarrow>
      createDonation now s uid b =
        (respond 400 (message ''All required fields must be filled''), s)) \<and>
   (\<not> missingDonationField b \<and> findUserById s uid = None \<longrightarrow>
      createDonation now s uid b = (respond 404 (message ''User not found''), s)) \<and>
   (\<forall>u. \<not> missingDonationField b \<and> findUserById s uid = Some u \<and> userType u \<noteq> ''donor'' \<longrightarrow>
      createDonation now s uid b =
        (respond 403 (message ''Only donors can create donations''), s)) \<and>
   (\<forall>u. \<not> missingDonationField b \<and> findUserById s uid = Some u \<and> userType u = ''receiver'' \<longrightarrow>
      createDonation now s uid b =
        (respond 403 (message ''Only donors can create donations''), s))"
  by (simp add: createDonation_def)

theorem createDonation_validates_first_witness:
  "createDonation 4 breadStore 1 emptyBody =
     (respond 400 (message ''All required fields must be filled''), breadStore) \<and>
   createDonation 4 breadStore 7 breadBody =
     (respond 404 (message ''User not found''), breadStore) \<and>
   createDonation 4 breadStore 1 breadBody =
     (respond 403 (message ''Only donors can create donations''), breadStore)"
proof -
  have e: "missingDonationField emptyBody"
    by (simp add: missingDonationField_def falsyField_def emptyBody_def)
  have b: "\<not> missingDonationField breadBody"
    by (simp add: missingDonationField_def falsyField_def breadBody_def)
  have u7: "findUserById breadStore 7 = None"
    by (simp add: findUserById_def breadStore_def fixture_defs)
  have u1: "findUserById breadStore 1 = Some userR \<and> userType userR = ''receiver'' \<and>
            userType userR \<noteq> ''donor''"
    by (simp add: findUserById_def breadStore_def fixture_defs)
  from e createDonation_validates_first [of emptyBody 4 breadStore 1]
  have 1: "createDonation 4 breadStore 1 emptyBody =
     (respond 400 (message ''All required fields must be filled''), breadStore)"
    by blast
  from b u7 createDonation_validates_first [of breadBody 4 breadStore 7]
  have 2: "createDonation 4 breadStore 7 breadBody =
     (respond 404 (message ''User not found''), breadStore)"
    by blast
  from b u1 createDonation_validates_first [of breadBody 4 breadStore 1]
  have 3: "createDonation 4 breadStore 1 breadBody =
     (respond 403 (message ''Only donors can create donations''), breadStore)"
    by blast
  from 1 2 3 show ?thesis by blast
qed

section \<open>Login\<close>

text \<open>
  For a password that is a string, a login with an email that no user has and a login
  with a known email and a password that does not match its digest get the same
  response: status 400 with the message \<open>Invalid email or password\<close>.
\<close>

lemma login_failures_equal_for_strings:
  "b ''password'' = Some (StringValue p) \<Longrightarrow> p \<noteq> [] \<Longrightarrow>
   b' ''password'' = Some (StringValue p') \<Longrightarrow> p' \<noteq> [] \<Longrightarrow>
   \<not> falsyField (b ''email'') \<Longrightarrow> \<not> falsyField (b' ''email'') \<Longrightarrow>
   findUserByEmail s (the (fieldString b ''email'')) = None \<Longrightarrow>
   findUserByEmail s (the (fieldString b' ''email'')) = Some u \<Longrightarrow>
   \<not> bcrypt_compare L p' (password u) \<Longrightarrow>
   login L now s b = login L now' s b' \<and>
   login L now s b = respond 400 (message ''Invalid email or password'')"
  by (simp add: login_def falsyField_def bcryptCompare_def)

text \<open>
  C8. The handler sends the same 400 on both failures, but it hands the password to
  \<^verbatim>\<open>bcrypt.compare\<close> as it came. With the number 123 for a password, a login with an
  email that no user has gets 400, invalid email or password, and a login with the
  donor's email gets 500, server error during login: the two failures differ, and the
  response tells that the email is known.
\<close>

theorem login_failure_reveals_known_email:
  "reachable testLib breadStore \<and>
   findUserByEmail breadStore ''n@x.com'' = None \<and>
   findUserByEmail breadStore ''d@x.com'' = Some userD \<and>
   login testLib 7 breadStore unknownEmailNumberBody =
     respond 400 (message ''Invalid email or password'') \<and>
   login testLib 7 breadStore knownEmailNumberBody =
     respond 500 (JObject [(''message'', JString ''Server error during login''),
                           (''error'', JErrorMessage IllegalArguments)]) \<and>
   login testLib 7 breadStore unknownEmailNumberBody \<noteq>
     login testLib 7 breadStore knownEmailNumberBody"
  using reachable_breadStore
  by (simp add: login_def falsyField_def fieldString_def bcryptCompare_def findUserByEmail_def
      breadStore_def fixture_defs unknownEmailNumberBody_def knownEmailNumberBody_def
      respond_def message_def serverError_def)

text \<open>
  C9. The body of a 201 response of the registration is the message and a \<open>user\<close>
  object with exactly the keys \<open>id\<close>, \<open>name\<close>, \<open>email\<close>, \<open>userType\<close>,
  holding those fields of the stored user; the body of a 200 response of the login is
  the token and a \<open>user\<close> object with exactly the keys \<open>id\<close>, \<open>name\<close>,
  \<open>email\<close>, \<open>userType\<close>, \<open>phone\<close>, \<open>address\<close>. Neither has a field for
  the password digest.
\<close>

theorem responses_omit_password:
  "(statusCode (fst (register L now salt s b)) = 201 \<longrightarrow>
      (\<exists>u. findUserByEmail (snd (register L now salt s b)) (the (fieldString b ''email'')) = Some u \<and>
           body (fst (register L now salt s b)) =
             JObject [(''message'', JString ''User registered successfully''),
                      (''user'', JObject [(''id'', JObjectId (user_id u)),
                         (''name'', JString (name u)), (''email'', JString (email u)),
                         (''userType'', JString (userType u))])]) \<and>
      (\<exists>j. getField (body (fst (register L now salt s b))) ''user'' = Some j \<and>
           objectKeys j = [''id'', ''name'', ''email'', ''userType''])) \<and>
   (statusCode (login L now' s' b') = 200 \<longrightarrow>
      (\<exists>u. findUserByEmail s' (the (fieldString b' ''email'')) = Some u \<and>
           body (login L now' s' b') =
             JObject [(''token'', JString (jwt_sign L (user_id u) JWT_SECRET now')),
                      (''user'', JObject [(''id'', JObjectId (user_id u)),
                         (''name'', JString (name u)), (''email'', JString (email u)),
                         (''userType'', JString (userType u)),
                         (''phone'', JString (phone u)),
                         (''address'', JString (address u))])]) \<and>
      (\<exists>j. getField (body (login L now' s' b')) ''user'' = Some j \<and>
           objectKeys j = [''id'', ''name'', ''email'', ''userType'', ''phone'', ''address'']))"
proof -
  have reg: "\<exists>u. findUserByEmail (snd (register L now salt s b)) (the (fieldString b ''email'')) = Some u \<and>
           body (fst (register L now salt s b)) =
             JObject [(''message'', JString ''User registered successfully''),
                      (''user'', JObject [(''id'', JObjectId (user_id u)),
                         (''name'', JString (name u)), (''email'', JString (email u)),
                         (''userType'', JString (userType u))])]"
    if "statusCode (fst (register L now salt s b)) = 201"
    using that
    by (auto simp: register_def respond_def message_def serverError_def saveUser_def Let_def
        findUserByEmail_drawId findUserByEmail_def find_append_None drawId_def
        split: option.splits if_splits sum.splits)
  have log: "\<exists>u. findUserByEmail s' (the (fieldString b' ''email'')) = Some u \<and>
           body (login L now' s' b') =
             JObject [(''token'', JString (jwt_sign L (user_id u) JWT_SECRET now')),
                      (''user'', JObject [(''id'', JObjectId (user_id u)),
                         (''name'', JString (name u)), (''email'', JString (email u)),
                         (''userType'', JString (userType u)),
                         (''phone'', JString (phone u)),
                         (''address'', JString (address u))])]"
    if "statusCode (login L now' s' b') = 200"
    using that
    by (auto simp: login_def respond_def message_def serverError_def
        split: option.splits if_splits sum.splits)
  have regk: "\<exists>j. getField (body (fst (register L now salt s b))) ''user'' = Some j \<and>
           objectKeys j = [''id'', ''name'', ''email'', ''userType'']"
    if "statusCode (fst (register L now salt s b)) = 201"
    using reg [OF that] by auto
  have logk: "\<exists>j. getField (body (login L now' s' b')) ''user'' = Some j \<and>
           objectKeys j = [''id'', ''name'', ''email'', ''userType'', ''phone'', ''address'']"
    if "statusCode (login L now' s' b') = 200"
    using log [OF that] by auto
  from reg log regk logk show ?thesis by blast
qed

theorem responses_omit_password_witness:
  "body (fst (register testLib 1 0 emptyStore donorBody)) =
     JObject [(''message'', JString ''User registered successfully''),
              (''user'', JObject [(''id'', JObjectId 0), (''name'', JString ''D''),
                 (''email'', JString ''d@x.com''), (''userType'', JString ''donor'')])] \<and>
   body (login testLib 7 breadStore donorLoginBody) =
     JObject [(''token'', JString JWT_SECRET),
              (''user'', JObject [(''id'', JObjectId 0), (''name'', JString ''D''),
                 (''email'', JString ''d@x.com''), (''userType'', JString ''donor''),
                 (''phone'', JString ''111''), (''address'', JString ''1 Main St'')])]"
proof -
  have r: "statusCode (fst (register testLib 1 0 emptyStore donorBody)) = 201"
    by (simp add: run_defs donorBody_def respond_def)
  have l: "statusCode (login testLib 7 breadStore donorLoginBody) = 200"
    by (simp add: login_def bcryptCompare_def run_defs fixture_defs breadStore_def
        donorLoginBody_def respond_def)
  have fr: "findUserByEmail (snd (register testLib 1 0 emptyStore donorBody))
              (the (fieldString donorBody ''email'')) = Some userD"
    by (simp add: run_defs donorBody_def userD_def)
  have fl: "findUserByEmail breadStore (the (fieldString donorLoginBody ''email'')) = Some userD"
    by (simp add: findUserByEmail_def fieldString_def breadStore_def donorLoginBody_def
        fixture_defs)
  have t: "jwt_sign testLib (user_id userD) JWT_SECRET 7 = JWT_SECRET"
    by (simp add: testLib_def userD_def)
  have v: "user_id userD = 0 \<and> name userD = ''D'' \<and> email userD = ''d@x.com'' \<and>
           userType userD = ''donor'' \<and> phone userD = ''111'' \<and> address userD = ''1 Main St''"
    by (simp add: userD_def)
  from responses_omit_password [of testLib 1 0 emptyStore donorBody 7 breadStore donorLoginBody] r l fr fl
  have "body (fst (register testLib 1 0 emptyStore donorBody)) =
     JObject [(''message'', JString ''User registered successfully''),
              (''user'', JObject [(''id'', JObjectId (user_id userD)),
                 (''name'', JString (name userD)), (''email'', JString (email userD)),
                 (''userType'', JString (userType userD))])] \<and>
   body (login testLib 7 breadStore donorLoginBody) =
     JObject [(''token'', JString (jwt_sign testLib (user_id userD) JWT_SECRET 7)),
              (''user'', JObject [(''id'', JObjectId (user_id userD)),
                 (''name'', JString (name userD)), (''email'', JString (email userD)),
                 (''userType'', JString (userType userD)),
                 (''phone'', JString (phone userD)),
                 (''address'', JString (address userD))])]"
    by auto
  with t v show ?thesis
    by simp
qed

section \<open>Listing the available donations\<close>

lemma sorted_wrt_sortByCreatedAtDesc:
  "sorted_wrt (\<lambda>a b. createdAt b \<le> createdAt a) (sortByCreatedAtDesc ds)"
proof -
  have "sorted (map createdAt (sort_key createdAt ds))"
    by (rule sorted_sort_key)
  then have "sorted_wrt (\<lambda>a b. createdAt a \<le> createdAt b) (sort_key createdAt ds)"
    by (simp add: sorted_map)
  then show ?thesis
    by (simp add: sortByCreatedAtDesc_def sorted_wrt_rev)
qed

lemma mset_sortByCreatedAtDesc: "mset (sortByCreatedAtDesc ds) = mset ds"
  by (simp add: sortByCreatedAtDesc_def)

lemma set_sortByCreatedAtDesc: "set (sortByCreatedAtDesc ds) = set ds"
  by (simp add: sortByCreatedAtDesc_def)

text \<open>
  C6. The list that \<^verbatim>\<open>GET /api/donations\<close> sends holds exactly the donations of the
  store whose status is \<open>available\<close>, each as often as the store holds it, newest
  first; no donation in it has status \<open>claimed\<close> or \<open>completed\<close>.
\<close>

theorem listAvailable_exact:
  "mset (getDonations s) = filter_mset (\<lambda>d. status d = ''available'') (mset (donations s)) \<and>
   sorted_wrt (\<lambda>a b. createdAt b \<le> createdAt a) (getDonations s) \<and>
   (\<forall>d \<in> set (getDonations s). status d \<noteq> ''claimed'' \<and> status d \<noteq> ''completed'') \<and>
   listAvailable s = respond 200 (JArray (map JDonation (getDonations s)))"
proof -
  have m: "mset (getDonations s) = filter_mset (\<lambda>d. status d = ''available'') (mset (donations s))"
    by (simp add: getDonations_def mset_sortByCreatedAtDesc)
  have o: "sorted_wrt (\<lambda>a b. createdAt b \<le> createdAt a) (getDonations s)"
    unfolding getDonations_def by (rule sorted_wrt_sortByCreatedAtDesc)
  have n: "\<forall>d \<in> set (getDonations s). status d \<noteq> ''claimed'' \<and> status d \<noteq> ''completed''"
    by (simp add: getDonations_def set_sortByCreatedAtDesc)
  have r: "listAvailable s = respond 200 (JArray (map JDonation (getDonations s)))"
    by (simp add: listAvailable_def)
  from m o n r show ?thesis by blast
qed

theorem listAvailable_exact_witness:
  "getDonations mixedStore = [rice, soup] \<and>
   status rice \<noteq> ''claimed'' \<and> status rice \<noteq> ''completed'' \<and>
   listAvailable mixedStore = respond 200 (JArray [JDonation rice, JDonation soup])"
proof -
  have g: "getDonations mixedStore = [rice, soup]"
    by (simp add: getDonations_def mixedStore_def sortByCreatedAtDesc_def stampReceiver_def
        soup_def rice_def bread_def)
  then have "rice \<in> set (getDonations mixedStore)"
    by simp
  with g listAvailable_exact [of mixedStore] show ?thesis
    by simp
qed

end
